theory Spec2Isabelle
  imports Main
begin

section \<open>The ISF document model of \<^verbatim>\<open>VVISF/include/ISFDoc.hpp\<close>\<close>

text \<open>
  The class \<^verbatim>\<open>ISFDoc\<close> describes one ISF file: its identity strings, its declared
  inputs, its render passes and the raw texts it was read from. The header gives the
  private members with their default initialisers and defines the simple accessors
  inline; the constructors, the buffer lookups, the source generator and the dimension
  evaluator are declared there and defined elsewhere.

  A private member \<^verbatim>\<open>_x\<close> of the class is the record field \<open>doc_x\<close> (an Isabelle
  name cannot start with an underscore); the public accessor \<^verbatim>\<open>x()\<close> keeps its name.
  A \<^verbatim>\<open>std::string *\<close> member is a \<open>string option\<close>: \<open>None\<close> is \<^verbatim>\<open>nullptr\<close>, and
  \<open>Some s\<close> points to a string holding \<open>s\<close>. A \<^verbatim>\<open>std::vector\<close> is a list.
\<close>

subsection \<open>Types the header uses\<close>

text \<open>
  Modelled from the spec: the enum \<^verbatim>\<open>ISFFileType\<close> is declared in
  \<^verbatim>\<open>VVISF_Base.hpp\<close>, which is not among the sources. The header names the value
  \<^verbatim>\<open>ISFFileType_Source\<close>; the spec lists the tags generator source, filter and
  transition.
\<close>

datatype ISFFileType = ISFFileType_Source | ISFFileType_Filter | ISFFileType_Transition

text \<open>
  Modelled from the spec: the enum \<^verbatim>\<open>ISFValType\<close> is declared in a header that is
  not among the sources. The spec lists the kinds event, boolean, integer/long, float,
  2D point, color, image, audio and audio-FFT.
\<close>

datatype ISFValType =
    ISFValType_Event | ISFValType_Bool | ISFValType_Long | ISFValType_Float
  | ISFValType_Point2D | ISFValType_Color | ISFValType_Image | ISFValType_Audio
  | ISFValType_AudioFFT

text \<open>
  Modelled from the spec: the class \<^verbatim>\<open>ISFAttr\<close> (\<^verbatim>\<open>ISFAttr.hpp\<close>) is not among the
  sources. An attribute has a name, a kind, a human label and a description; for an
  image import the description holds the path of the imported file.
\<close>

record ISFAttr =
  attr_name :: string
  attr_type :: ISFValType
  attr_label :: string
  attr_description :: string

text \<open>
  Modelled from the spec: the class \<^verbatim>\<open>ISFPassTarget\<close> is not among the sources. A
  pass target has a target name, a width and a height expression string (absent when
  the pass gives none), a floating-point-precision flag and a persistent flag.
\<close>

record ISFPassTarget =
  pt_name :: string
  pt_widthExpr :: "string option"
  pt_heightExpr :: "string option"
  pt_float :: bool
  pt_persistent :: bool

text \<open>\<^verbatim>\<open>ISFScene *\<close>: a non-owning pointer, \<open>None\<close> for \<^verbatim>\<open>nullptr\<close>.\<close>

type_synonym ISFScenePtr = "nat option"

subsection \<open>The members of \<^verbatim>\<open>ISFDoc\<close>\<close>

text \<open>
  The fields follow the header's private section, in its order. The mutex
  \<^verbatim>\<open>_propLock\<close> holds no data and is left out.
\<close>

record ISFDoc =
  doc_path :: "string option"
  doc_name :: "string option"
  doc_description :: "string option"
  doc_credit :: "string option"
  doc_vsn :: "string option"
  doc_type :: ISFFileType
  doc_throwExcept :: bool
  doc_categories :: "string list"
  doc_inputs :: "ISFAttr list"
  doc_imageInputs :: "ISFAttr list"
  doc_audioInputs :: "ISFAttr list"
  doc_imageImports :: "ISFAttr list"
  doc_persistentPassTargets :: "ISFPassTarget list"
  doc_tempPassTargets :: "ISFPassTarget list"
  doc_renderPasses :: "string list"
  doc_jsonSourceString :: "string option"
  doc_jsonString :: "string option"
  doc_vertShaderSource :: "string option"
  doc_fragShaderSource :: "string option"
  doc_parentScene :: ISFScenePtr

text \<open>
  The default member initialisers: every pointer is \<^verbatim>\<open>nullptr\<close>, the type is
  \<^verbatim>\<open>ISFFileType_Source\<close>, \<^verbatim>\<open>_throwExcept\<close> is true and every vector is empty. This
  is the state of an \<^verbatim>\<open>ISFDoc\<close> before a constructor body has stored anything.
\<close>

definition ISFDoc_init :: ISFDoc where
  "ISFDoc_init =
     \<lparr> doc_path = None, doc_name = None, doc_description = None, doc_credit = None,
       doc_vsn = None, doc_type = ISFFileType_Source, doc_throwExcept = True,
       doc_categories = [], doc_inputs = [], doc_imageInputs = [], doc_audioInputs = [],
       doc_imageImports = [], doc_persistentPassTargets = [], doc_tempPassTargets = [],
       doc_renderPasses = [], doc_jsonSourceString = None, doc_jsonString = None,
       doc_vertShaderSource = None, doc_fragShaderSource = None,
       doc_parentScene = None \<rparr>"

subsection \<open>The accessors the header defines inline\<close>

text \<open>
  \<^verbatim>\<open>std::string path() const { return (_path==nullptr) ? std::string("") : std::string(*_path); }\<close>
  and the same for \<^verbatim>\<open>name\<close>, \<^verbatim>\<open>description\<close>, \<^verbatim>\<open>credit\<close> and \<^verbatim>\<open>vsn\<close>: each
  returns a \<^verbatim>\<open>std::string\<close> by value.
\<close>

definition path :: "ISFDoc \<Rightarrow> string" where
  "path d = (case doc_path d of None \<Rightarrow> '''' | Some s \<Rightarrow> s)"

definition name :: "ISFDoc \<Rightarrow> string" where
  "name d = (case doc_name d of None \<Rightarrow> '''' | Some s \<Rightarrow> s)"

definition description :: "ISFDoc \<Rightarrow> string" where
  "description d = (case doc_description d of None \<Rightarrow> '''' | Some s \<Rightarrow> s)"

definition credit :: "ISFDoc \<Rightarrow> string" where
  "credit d = (case doc_credit d of None \<Rightarrow> '''' | Some s \<Rightarrow> s)"

definition vsn :: "ISFDoc \<Rightarrow> string" where
  "vsn d = (case doc_vsn d of None \<Rightarrow> '''' | Some s \<Rightarrow> s)"

text \<open>
  \<^verbatim>\<open>std::vector<ISFPassTargetRef> persistentPassTargets() const { return _persistentPassTargets; }\<close>,
  \<^verbatim>\<open>tempPassTargets()\<close> likewise, and
  \<^verbatim>\<open>std::vector<std::string> & renderPasses() { return _renderPasses; }\<close>.
\<close>

definition persistentPassTargets :: "ISFDoc \<Rightarrow> ISFPassTarget list" where
  "persistentPassTargets d = doc_persistentPassTargets d"

definition tempPassTargets :: "ISFDoc \<Rightarrow> ISFPassTarget list" where
  "tempPassTargets d = doc_tempPassTargets d"

definition renderPasses :: "ISFDoc \<Rightarrow> string list" where
  "renderPasses d = doc_renderPasses d"

section \<open>Identity accessors\<close>

lemma accessor_of_stored_string:
  "doc_path d = Some s \<Longrightarrow> path d = s"
  "doc_name d = Some s \<Longrightarrow> name d = s"
  "doc_description d = Some s \<Longrightarrow> description d = s"
  "doc_credit d = Some s \<Longrightarrow> credit d = s"
  "doc_vsn d = Some s \<Longrightarrow> vsn d = s"
  by (simp_all add: path_def name_def description_def credit_def vsn_def)

text \<open>
  Claim C10. For a document in which an identity member was never populated (its
  pointer is still \<^verbatim>\<open>nullptr\<close>), the accessor among \<^verbatim>\<open>path()\<close>, \<^verbatim>\<open>name()\<close>,
  \<^verbatim>\<open>description()\<close>, \<^verbatim>\<open>credit()\<close> and \<^verbatim>\<open>vsn()\<close> returns the empty string. Each
  accessor returns a string by value, so it has no null result and no failing branch.
\<close>

theorem unpopulated_identity_is_empty_string:
  "(doc_path d = None \<longrightarrow> path d = '''') \<and>
   (doc_name d = None \<longrightarrow> name d = '''') \<and>
   (doc_description d = None \<longrightarrow> description d = '''') \<and>
   (doc_credit d = None \<longrightarrow> credit d = '''') \<and>
   (doc_vsn d = None \<longrightarrow> vsn d = '''')"
  by (simp add: path_def name_def description_def credit_def vsn_def)

text \<open>
  The document as its default member initialisers leave it has all five pointers
  null, and all five accessors return the empty string on it.
\<close>

theorem unpopulated_identity_witness:
  "doc_path ISFDoc_init = None \<and> path ISFDoc_init = '''' \<and>
   doc_name ISFDoc_init = None \<and> name ISFDoc_init = '''' \<and>
   doc_description ISFDoc_init = None \<and> description ISFDoc_init = '''' \<and>
   doc_credit ISFDoc_init = None \<and> credit ISFDoc_init = '''' \<and>
   doc_vsn ISFDoc_init = None \<and> vsn ISFDoc_init = ''''"
proof -
  have unset:
    "doc_path ISFDoc_init = None" "doc_name ISFDoc_init = None"
    "doc_description ISFDoc_init = None" "doc_credit ISFDoc_init = None"
    "doc_vsn ISFDoc_init = None"
    by (simp_all add: ISFDoc_init_def)
  from unpopulated_identity_is_empty_string [of ISFDoc_init] unset
  show ?thesis by simp
qed

end
